theory Spec2Isabelle
  imports Main "HOL-Library.Sublist"
begin

section \<open>Strings\<close>

text \<open>
  A Python \<open>str\<close> is modelled as a \<open>string\<close>; a \<open>char\<close> stands for a code point below 256.
  On that range \<open>str.lower()\<close> maps \<open>A..Z\<close> and the upper-case letters \<open>0xC0..0xDE\<close>
  (without the multiplication sign \<open>0xD7\<close>) 32 places up and leaves every other code point alone.
\<close>

definition lower_char :: "char \<Rightarrow> char" where
  "lower_char c =
     (let n = (of_char c :: nat) in
      if (65 \<le> n \<and> n \<le> 90) \<or> (192 \<le> n \<and> n \<le> 222 \<and> n \<noteq> 215)
      then char_of (n + 32) else c)"

definition lower :: "string \<Rightarrow> string" where
  "lower s = map lower_char s"

text \<open>The test \<open>sub in s\<close> of Python: \<open>sub\<close> occurs in \<open>s\<close> as a contiguous run.\<close>

fun contains :: "string \<Rightarrow> string \<Rightarrow> bool" where
  "contains sub [] = (sub = [])"
| "contains sub (c # cs) = (prefix sub (c # cs) \<or> contains sub cs)"

text \<open>
  \<open>s.replace(old, new)\<close>: every occurrence of \<open>old\<close>, found from the left without overlap,
  becomes \<open>new\<close>; an empty \<open>old\<close> matches before every character and at the end.
\<close>

function replace :: "string \<Rightarrow> string \<Rightarrow> string \<Rightarrow> string" where
  "replace old new s =
     (if old = [] then new @ concat (map (\<lambda>c. c # new) s)
      else if s = [] then []
      else if prefix old s then new @ replace old new (drop (length old) s)
      else hd s # replace old new (tl s))"
  by pat_completeness auto
termination
  by (relation "measure (\<lambda>(old, new, s). length s)") auto

declare replace.simps [simp del]

definition newline :: char where
  "newline = CHR 0x0A"

definition backslash :: char where
  "backslash = CHR 0x5C"

text \<open>\<open>str.join\<close> with a one-character separator.\<close>

fun join_with :: "char \<Rightarrow> string list \<Rightarrow> string" where
  "join_with sep [] = []"
| "join_with sep [w] = w"
| "join_with sep (w # v # ws) = w @ sep # join_with sep (v # ws)"

text \<open>\<open>s.endswith('\n')\<close>.\<close>

definition ends_with_newline :: "string \<Rightarrow> bool" where
  "ends_with_newline s = (s \<noteq> [] \<and> last s = newline)"

text \<open>\<open>str.isspace\<close> on one code point below 256.\<close>

definition is_space :: "char \<Rightarrow> bool" where
  "is_space c =
     (let n = (of_char c :: nat) in
      (9 \<le> n \<and> n \<le> 13) \<or> (28 \<le> n \<and> n \<le> 32) \<or> n = 133 \<or> n = 160)"

text \<open>\<open>s.split()\<close>: the maximal runs of non-space characters.\<close>

primrec split_fields :: "string \<Rightarrow> string list" where
  "split_fields [] = [[]]"
| "split_fields (c # cs) =
     (if is_space c then [] # split_fields cs
      else (case split_fields cs of
              [] \<Rightarrow> [[c]]
            | w # ws \<Rightarrow> (c # w) # ws))"

definition split_ws :: "string \<Rightarrow> string list" where
  "split_ws s = filter (\<lambda>w. w \<noteq> []) (split_fields s)"

section \<open>Dates\<close>

record datetime =
  year :: nat
  month :: nat
  day :: nat
  hour :: nat
  minute :: nat
  second :: nat
  microsecond :: nat

definition digit :: "nat \<Rightarrow> char" where
  "digit n = char_of (48 + n mod 10)"

definition pad2 :: "nat \<Rightarrow> string" where
  "pad2 n = [digit (n div 10), digit n]"

definition pad4 :: "nat \<Rightarrow> string" where
  "pad4 n = [digit (n div 1000), digit (n div 100), digit (n div 10), digit n]"

definition pad6 :: "nat \<Rightarrow> string" where
  "pad6 n = [digit (n div 100000), digit (n div 10000), digit (n div 1000),
             digit (n div 100), digit (n div 10), digit n]"

text \<open>\<open>d.isoformat()\<close>; the fraction is printed only when it is not zero.\<close>

definition isoformat :: "datetime \<Rightarrow> string" where
  "isoformat d =
     pad4 (year d) @ ''-'' @ pad2 (month d) @ ''-'' @ pad2 (day d) @ ''T'' @
     pad2 (hour d) @ '':'' @ pad2 (minute d) @ '':'' @ pad2 (second d) @
     (if microsecond d = 0 then [] else ''.'' @ pad6 (microsecond d))"

text \<open>\<open>d.strftime("%Y-%m-%d %H:%M:%S")\<close>, for a year of four digits.\<close>

definition strftime_ymd_hms :: "datetime \<Rightarrow> string" where
  "strftime_ymd_hms d =
     pad4 (year d) @ ''-'' @ pad2 (month d) @ ''-'' @ pad2 (day d) @ '' '' @
     pad2 (hour d) @ '':'' @ pad2 (minute d) @ '':'' @ pad2 (second d)"

definition epoch :: datetime where
  "epoch = \<lparr>year = 1970, month = 1, day = 1, hour = 0, minute = 0, second = 0,
            microsecond = 0\<rparr>"

section \<open>ServerCoreManager: the static tables\<close>

text \<open>
  \<open>CORE_TYPES\<close> maps a core tag to its descriptor. Of a descriptor only the
  \<open>download_pattern\<close> entry is read by the functions below; the display entries
  (name, website, description) are left out.
\<close>

definition CORE_TYPES :: "(string \<times> string) list" where
  "CORE_TYPES =
    [(''purpur'', ''https://api.purpurmc.org/v2/purpur/{version}/latest/download''),
     (''paper'', ''https://api.papermc.io/v2/projects/paper/versions/{version}/builds/{build}/downloads/paper-{version}-{build}.jar''),
     (''spigot'', ''https://download.spigotmc.org/spigot/spigot-{version}.jar''),
     (''craftbukkit'', ''https://download.craftbukkit.org/craftbukkit-{version}.jar''),
     (''vanilla'', ''https://launcher.mojang.com/v1/objects/{hash}/server.jar''),
     (''fabric'', ''https://meta.fabricmc.net/v2/versions/loader/{version}/{loader}/server/jar''),
     (''forge'', ''https://maven.minecraftforge.net/net/minecraftforge/forge/{version}/forge-{version}-installer.jar''),
     (''neoforge'', ''https://maven.neoforged.net/releases/net/neoforged/forge/{version}/forge-{version}-installer.jar''),
     (''catserver'', ''https://github.com/Luohuayu/CatServer/releases/download/{version}/catserver-{version}.jar''),
     (''mohist'', ''https://mohistmc.com/api/v2/projects/mohist/{version}/builds/{build}/downloads/mohist-{version}-{build}.jar'')]"

text \<open>\<open>MIRROR_SITES\<close> maps a mirror id to its \<open>patterns\<close> table (core tag to URL template).\<close>

definition MIRROR_SITES :: "(string \<times> (string \<times> string) list) list" where
  "MIRROR_SITES =
    [(''mslmc'',
       [(''paper'', ''https://dl.mslmc.cn''),
        (''purpur'', ''https://dl.mslmc.cn''),
        (''vanilla'', ''https://dl.mslmc.cn''),
        (''spigot'', ''https://dl.mslmc.cn''),
        (''craftbukkit'', ''https://dl.mslmc.cn'')]),
     (''bmclapi'',
       [(''paper'', ''https://bmclapi2.bangbang93.com/projects/paper/versions/{version}/builds/{build}/downloads/paper-{version}-{build}.jar''),
        (''purpur'', ''https://bmclapi2.bangbang93.com/projects/purpur/versions/{version}/builds/{build}/downloads/purpur-{version}-{build}.jar''),
        (''vanilla'', ''https://bmclapi2.bangbang93.com/version/{version}/server''),
        (''fabric'', ''https://bmclapi2.bangbang93.com/fabric-meta/v2/versions/loader/{version}/{loader}/server/jar''),
        (''forge'', ''https://bmclapi2.bangbang93.com/maven/net/minecraftforge/forge/{version}/forge-{version}-installer.jar'')]),
     (''mc'', [])]"

text \<open>
  \<open>get_core_info(core_type)["download_pattern"]\<close>: the descriptor of an unknown tag is the
  default one, whose pattern is the empty string.
\<close>

definition get_core_info :: "string \<Rightarrow> string" where
  "get_core_info core_type =
     (case map_of CORE_TYPES core_type of Some pattern \<Rightarrow> pattern | None \<Rightarrow> [])"

text \<open>
  \<open>get_download_url\<close>: the template of the chosen mirror if it has one for the core type,
  else the core type's own pattern, where \<open>vanilla\<close> gives \<open>None\<close>.
\<close>

definition get_download_url :: "string \<Rightarrow> string \<Rightarrow> string \<Rightarrow> string option" where
  "get_download_url core_type version mirror =
     (case (case map_of MIRROR_SITES mirror of
              None \<Rightarrow> None
            | Some patterns \<Rightarrow> map_of patterns core_type) of
        Some pattern \<Rightarrow>
          if contains ''{build}'' pattern
          then Some (replace ''{build}'' ''latest'' (replace ''{version}'' version pattern))
          else Some (replace ''{version}'' version pattern)
      | None \<Rightarrow>
          (let pattern = get_core_info core_type in
           if pattern \<noteq> [] then
             (if core_type = ''vanilla'' then None
              else Some (replace ''{version}'' version pattern))
           else None))"

section \<open>Paths and the file system\<close>

text \<open>
  A \<open>pathlib\<close> path of the POSIX flavour: its anchor (none, \<open>/\<close>, or the
  implementation-defined \<open>//\<close>) and its components.
\<close>

datatype anchor = NoRoot | Slash | DoubleSlash

datatype path = Path (root: anchor) (parts: "string list")

primrec split_on :: "char \<Rightarrow> string \<Rightarrow> string list" where
  "split_on sep [] = [[]]"
| "split_on sep (c # cs) =
     (if c = sep then [] # split_on sep cs
      else (case split_on sep cs of
              [] \<Rightarrow> [[c]]
            | w # ws \<Rightarrow> (c # w) # ws))"

text \<open>
  \<open>Path(s)\<close>: two leading slashes are kept apart, any other number of them is the root;
  empty components and \<open>.\<close> are dropped, \<open>..\<close> is kept.
\<close>

definition path_of_string :: "string \<Rightarrow> path" where
  "path_of_string s =
     Path (let k = length (takeWhile (\<lambda>c. c = CHR ''/'') s) in
           if k = 0 then NoRoot else if k = 2 then DoubleSlash else Slash)
          (filter (\<lambda>w. w \<noteq> [] \<and> w \<noteq> ''.'') (split_on CHR ''/'' s))"

text \<open>\<open>p / s\<close>: an anchored right operand replaces the left one.\<close>

definition joinpath :: "path \<Rightarrow> string \<Rightarrow> path" where
  "joinpath p s =
     (let q = path_of_string s in
      if root q \<noteq> NoRoot then q else Path (root p) (parts p @ parts q))"

text \<open>\<open>p.name\<close>: the last component, the empty string when there is none.\<close>

definition path_name :: "path \<Rightarrow> string" where
  "path_name p = (if parts p = [] then [] else last (parts p))"

text \<open>\<open>str(p)\<close>.\<close>

definition path_str :: "path \<Rightarrow> string" where
  "path_str p =
     (case root p of
        NoRoot \<Rightarrow> (if parts p = [] then ''.'' else join_with (CHR ''/'') (parts p))
      | Slash \<Rightarrow> CHR ''/'' # join_with (CHR ''/'') (parts p)
      | DoubleSlash \<Rightarrow> CHR ''/'' # CHR ''/'' # join_with (CHR ''/'') (parts p))"

text \<open>JSON values, as \<open>json.load\<close> returns them; a float is kept as mantissa and exponent.\<close>

datatype jval =
    JNull
  | JBool bool
  | JInt int
  | JFloat int int
  | JStr string
  | JArr "jval list"
  | JObj "(string \<times> jval) list"

text \<open>
  A file is described by what the program can read from it:
  \<^item> \<open>as_text\<close>: the result of \<open>open(p, 'r', encoding='utf-8').read()\<close>, \<open>None\<close> when that raises;
  \<^item> \<open>as_zip\<close>: the member names \<open>zipfile.ZipFile(p).filelist\<close> gives, \<open>None\<close> when that raises;
  \<^item> \<open>as_json\<close>: the result of \<open>json.load\<close>, \<open>None\<close> when that raises.
  The file system maps path objects to nodes; two spellings of one location
  (through \<open>..\<close>, a link or the working directory) are two keys.
\<close>

record fdata =
  as_text :: "string option"
  as_zip :: "string list option"
  as_json :: "jval option"

datatype node = Dir | File fdata

type_synonym filesys = "path \<Rightarrow> node option"

definition path_exists :: "filesys \<Rightarrow> path \<Rightarrow> bool" where
  "path_exists fs p = (fs p \<noteq> None)"

definition zip_namelist :: "filesys \<Rightarrow> path \<Rightarrow> string list option" where
  "zip_namelist fs p = (case fs p of Some (File f) \<Rightarrow> as_zip f | _ \<Rightarrow> None)"

section \<open>ServerCoreManager.detect_core_type\<close>

definition detect_core_type :: "filesys \<Rightarrow> path \<Rightarrow> string" where
  "detect_core_type fs jar_path =
     (if \<not> path_exists fs jar_path then ''unknown''
      else
        (let jar_name = lower (path_name jar_path) in
         if contains ''purpur'' jar_name then ''purpur''
         else if contains ''paper'' jar_name then ''paper''
         else if contains ''spigot'' jar_name then ''spigot''
         else if contains ''craftbukkit'' jar_name then ''craftbukkit''
         else if contains ''fabric'' jar_name then ''fabric''
         else if contains ''forge'' jar_name \<or> contains ''neoforge'' jar_name then ''forge''
         else if contains ''mohist'' jar_name then ''mohist''
         else if contains ''catserver'' jar_name then ''catserver''
         else if contains ''server'' jar_name \<and> \<not> contains ''vanilla'' jar_name then
           (case zip_namelist fs jar_path of
              Some names \<Rightarrow>
                if ''net/minecraft/server/Main.class'' \<in> set names then ''vanilla''
                else ''unknown''
            | None \<Rightarrow> ''unknown'')
         else ''unknown''))"

text \<open>
  The vendor keywords in the priority order the specification gives for the identifier.
\<close>

definition keyword_priority :: "string list" where
  "keyword_priority =
     [''purpur'', ''paper'', ''spigot'', ''craftbukkit'', ''fabric'', ''forge'',
      ''neoforge'', ''mohist'', ''catserver'']"

text \<open>The first keyword of the priority list that occurs in a (lower-cased) file name.\<close>

definition first_keyword :: "string \<Rightarrow> string option" where
  "first_keyword jar_name = find (\<lambda>k. contains k jar_name) keyword_priority"

section \<open>The supervisor's state and its environment\<close>

datatype exn = TypeError | AttributeError | OSError

datatype outcome = Done | Raised

text \<open>
  The handle \<open>subprocess.Popen\<close> returns: the process id and the exit status
  \<open>poll()\<close> has cached, \<open>None\<close> as long as no poll has seen the process exit.
\<close>

record popen =
  pid :: nat
  returncode :: "int option"

text \<open>
  The fields of \<open>UniversalServer\<close> the modelled methods read or write. The five fields
  that \<open>load_config\<close> fills from the JSON record hold whatever value the record has
  under their key, so they are JSON values.
\<close>

record server =
  server_dir :: path
  server_jar :: jval
  java_opts :: jval
  core_type :: jval
  minecraft_version :: jval
  mirror_site :: jval
  process :: "popen option"
  is_running :: bool
  start_time :: "datetime option"
  config_file :: path
  is_windows :: bool

text \<open>The calls the supervisor makes on the process and the operating system.\<close>

datatype event =
    Poll "int option"
  | Write string outcome
  | Flush outcome
  | Sleep nat
  | Terminate outcome
  | Kill outcome
  | Taskkill nat outcome
  | Popen "string list" path outcome

text \<open>What \<open>subprocess.run(["java", "-version"])\<close> does on the host.\<close>

datatype probe = Exit int | FileNotFound | ProbeError

text \<open>
  The world outside the supervisor.
  \<^item> \<open>files\<close> is the file system, \<open>can_write\<close> tells whether \<open>open(p, 'w')\<close> succeeds,
    \<open>serial\<close> is the text \<open>json.dump\<close> produces for a value.
  \<^item> \<open>statuses\<close> holds the answers the operating system will give to the coming status
    queries of the process (\<open>None\<close>: still running); when the list is used up the
    process is reported running.
  \<^item> \<open>faults\<close> tells for each coming call on the process (write, flush, terminate, kill,
    taskkill, spawn) whether it raises; when the list is used up the calls succeed.
  \<^item> \<open>clock\<close> holds the values of the coming \<open>datetime.now()\<close> calls.
  \<^item> \<open>trace\<close> records the calls made, oldest first.
\<close>

record world =
  files :: filesys
  can_write :: "path \<Rightarrow> bool"
  serial :: "jval \<Rightarrow> string"
  java_probe :: probe
  statuses :: "int option list"
  faults :: "bool list"
  clock :: "datetime list"
  next_pid :: nat
  trace :: "event list"

definition emit :: "event \<Rightarrow> world \<Rightarrow> world" where
  "emit e w = w\<lparr>trace := trace w @ [e]\<rparr>"

definition next_fault :: "world \<Rightarrow> outcome \<times> world" where
  "next_fault w =
     (case faults w of
        [] \<Rightarrow> (Done, w)
      | b # bs \<Rightarrow> (if b then Raised else Done, w\<lparr>faults := bs\<rparr>))"

definition now :: "world \<Rightarrow> datetime \<times> world" where
  "now w = (case clock w of [] \<Rightarrow> (epoch, w) | d # ds \<Rightarrow> (d, w\<lparr>clock := ds\<rparr>))"

subsection \<open>Files\<close>

definition read_text :: "filesys \<Rightarrow> path \<Rightarrow> string option" where
  "read_text fs p = (case fs p of Some (File f) \<Rightarrow> as_text f | _ \<Rightarrow> None)"

definition read_json :: "filesys \<Rightarrow> path \<Rightarrow> jval option" where
  "read_json fs p = (case fs p of Some (File f) \<Rightarrow> as_json f | _ \<Rightarrow> None)"

text \<open>
  \<open>open(p, 'w')\<close> followed by the write: fails on a directory and where the environment
  refuses, and replaces the file otherwise.
\<close>

definition write_file :: "path \<Rightarrow> fdata \<Rightarrow> world \<Rightarrow> world option" where
  "write_file p d w =
     (if can_write w p \<and> files w p \<noteq> Some Dir
      then Some (w\<lparr>files := (files w)(p \<mapsto> File d)\<rparr>)
      else None)"

text \<open>
  The texts the program writes (the license marker and the default properties) start
  with \<open>#\<close>: they are neither JSON documents nor archives.
\<close>

definition text_file :: "string \<Rightarrow> fdata" where
  "text_file s = \<lparr>as_text = Some s, as_zip = None, as_json = None\<rparr>"

text \<open>A file written by \<open>json.dump\<close> loads as the value that was dumped.\<close>

definition json_file :: "world \<Rightarrow> jval \<Rightarrow> fdata" where
  "json_file w j = \<lparr>as_text = Some (serial w j), as_zip = None, as_json = Some j\<rparr>"

section \<open>UniversalServer: the profile record\<close>

text \<open>\<open>config.get(key, default)\<close> on a dictionary.\<close>

definition dict_get :: "(string \<times> jval) list \<Rightarrow> string \<Rightarrow> jval \<Rightarrow> jval" where
  "dict_get config key dflt = (case map_of config key of Some v \<Rightarrow> v | None \<Rightarrow> dflt)"

text \<open>
  \<open>save_config(config)\<close>: without an argument the record is built from the fields and the
  current time; every failure of the write is caught and turns into the result \<open>False\<close>.
\<close>

definition save_config ::
  "(string \<times> jval) list option \<Rightarrow> server \<Rightarrow> world \<Rightarrow> bool \<times> server \<times> world" where
  "save_config config s w =
     (let (doc, w1) =
        (case config of
           Some c \<Rightarrow> (c, w)
         | None \<Rightarrow>
             (let (t, w0) = now w in
              ([(''server_dir'', JStr (path_str (server_dir s))),
                (''server_jar'', server_jar s),
                (''java_opts'', java_opts s),
                (''core_type'', core_type s),
                (''minecraft_version'', minecraft_version s),
                (''mirror_site'', mirror_site s),
                (''last_modified'', JStr (isoformat t))], w0)))
      in case write_file (config_file s) (json_file w1 (JObj doc)) w1 of
           Some w2 \<Rightarrow> (True, s, w2)
         | None \<Rightarrow> (False, s, w1))"

text \<open>The three assignments of the \<open>except\<close> and \<open>else\<close> branches of \<open>load_config\<close>.\<close>

definition reset_derived :: "server \<Rightarrow> server" where
  "reset_derived s =
     s\<lparr>core_type := JStr ''unknown'', minecraft_version := JStr '''',
       mirror_site := JStr ''mslmc''\<rparr>"

text \<open>
  \<open>load_config\<close>. Inside the \<open>try\<close> the first assignment is the only statement that can
  raise once the file is open and parsed: \<open>config.get\<close> exists only on a dictionary, and
  \<open>Path(...)\<close> accepts only a string. It raises before any field is assigned.
\<close>

definition load_config :: "server \<Rightarrow> world \<Rightarrow> server \<times> world" where
  "load_config s w =
     (let default_config =
        [(''server_dir'', JStr (path_str (server_dir s))),
         (''server_jar'', server_jar s),
         (''java_opts'', java_opts s),
         (''core_type'', JStr ''unknown''),
         (''minecraft_version'', JStr ''''),
         (''auto_backup'', JBool True),
         (''backup_interval'', JInt 3600),
         (''max_backups'', JInt 10),
         (''mirror_site'', JStr ''mslmc'')]
      in
      if path_exists (files w) (config_file s) then
        (case read_json (files w) (config_file s) of
           Some (JObj config) \<Rightarrow>
             (case dict_get config ''server_dir'' (JStr (path_str (server_dir s))) of
                JStr d \<Rightarrow>
                  (s\<lparr>server_dir := path_of_string d,
                     server_jar := dict_get config ''server_jar'' (server_jar s),
                     java_opts := dict_get config ''java_opts'' (java_opts s),
                     core_type := dict_get config ''core_type'' (JStr ''unknown''),
                     minecraft_version := dict_get config ''minecraft_version'' (JStr ''''),
                     mirror_site := dict_get config ''mirror_site'' (JStr ''mslmc'')\<rparr>, w)
              | _ \<Rightarrow> (reset_derived s, w))
         | _ \<Rightarrow> (reset_derived s, w))
      else
        (let (ok, s1, w1) = save_config (Some default_config) (reset_derived s) w
         in (s1, w1)))"

section \<open>UniversalServer: the license marker and the launch\<close>

datatype eula_msg = EulaMissing | EulaAccepted | EulaNotAccepted

text \<open>
  \<open>check_eula\<close>: the flag and which of the three messages comes with it. A marker that
  cannot be read counts as not accepted.
\<close>

definition check_eula :: "server \<Rightarrow> world \<Rightarrow> bool \<times> eula_msg" where
  "check_eula s w =
     (let eula_file = joinpath (server_dir s) ''eula.txt'' in
      if \<not> path_exists (files w) eula_file then (False, EulaMissing)
      else
        (case read_text (files w) eula_file of
           Some content \<Rightarrow>
             if contains ''eula=true'' (lower content) then (True, EulaAccepted)
             else (False, EulaNotAccepted)
         | None \<Rightarrow> (False, EulaNotAccepted)))"

definition eula_content :: "string \<Rightarrow> string" where
  "eula_content stamp =
     join_with newline
       [''#By changing the setting below to TRUE you are indicating your agreement to our EULA (https://aka.ms/MinecraftEULA).'',
        ''#Generated by Universal Minecraft Server Launcher'',
        ''# '' @ stamp,
        ''eula=true'']"

definition accept_eula :: "server \<Rightarrow> world \<Rightarrow> bool \<times> world" where
  "accept_eula s w =
     (let eula_file = joinpath (server_dir s) ''eula.txt'';
          (t, w1) = now w
      in case write_file eula_file (text_file (eula_content (strftime_ymd_hms t))) w1 of
           Some w2 \<Rightarrow> (True, w2)
         | None \<Rightarrow> (False, w1))"

definition default_props :: string where
  "default_props =
     concat (map (\<lambda>l. l @ [newline])
       [''#Minecraft server properties'',
        ''#Generated by Universal Minecraft Server Launcher'',
        ''max-players=20'',
        ''online-mode=true'',
        ''server-port=25565'',
        ''motd=Universal Minecraft Server'',
        ''view-distance=10'',
        ''simulation-distance=10'',
        ''difficulty=normal'',
        ''hardcore=false'',
        ''enable-command-block=true'',
        ''max-world-size=29999984'',
        ''spawn-npcs=true'',
        ''spawn-animals=true'',
        ''spawn-monsters=true'',
        ''generate-structures=true'',
        ''level-type=minecraft'' @ [backslash] @ '':normal''])"

text \<open>\<open>create_default_properties\<close>: the write is not guarded, a failure is raised.\<close>

definition create_default_properties :: "server \<Rightarrow> world \<Rightarrow> exn + world" where
  "create_default_properties s w =
     (case write_file (joinpath (server_dir s) ''server.properties'') (text_file default_props) w of
        Some w1 \<Rightarrow> Inr w1
      | None \<Rightarrow> Inl OSError)"

text \<open>The truth value Python gives a JSON value in a condition.\<close>

fun truthy :: "jval \<Rightarrow> bool" where
  "truthy JNull = False"
| "truthy (JBool b) = b"
| "truthy (JInt i) = (i \<noteq> 0)"
| "truthy (JFloat m e) = (m \<noteq> 0)"
| "truthy (JStr s) = (s \<noteq> [])"
| "truthy (JArr xs) = (xs \<noteq> [])"
| "truthy (JObj d) = (d \<noteq> [])"

text \<open>
  \<open>get_java_command\<close>. Joining the directory with a value that is not a string raises
  \<open>TypeError\<close>; a true value of \<open>java_opts\<close> that is not a string has no \<open>split\<close>.
\<close>

definition get_java_command :: "server \<Rightarrow> exn + string list" where
  "get_java_command s =
     (case server_jar s of
        JStr jar \<Rightarrow>
          (let jar_path = joinpath (server_dir s) jar;
               tail = [''-jar'', path_str jar_path] @
                      (if core_type s \<in> {JStr ''forge'', JStr ''neoforge'', JStr ''fabric''}
                       then [] else [''nogui''])
           in if truthy (java_opts s) then
                (case java_opts s of
                   JStr opts \<Rightarrow> Inr ([''java''] @ split_ws opts @ tail)
                 | _ \<Rightarrow> Inl AttributeError)
              else Inr ([''java''] @ tail))
      | _ \<Rightarrow> Inl TypeError)"

text \<open>\<open>os.path.exists\<close> on a path given as a string.\<close>

definition os_path_exists :: "filesys \<Rightarrow> string \<Rightarrow> bool" where
  "os_path_exists fs p = path_exists fs (path_of_string p)"

definition windows_java_paths :: "string list" where
  "windows_java_paths =
     map (join_with backslash)
       [[''C:'', ''Program Files'', ''Java'', ''jdk-21'', ''bin'', ''java.exe''],
        [''C:'', ''Program Files'', ''Java'', ''jdk-17'', ''bin'', ''java.exe''],
        [''C:'', ''Program Files'', ''Java'', ''jdk-11'', ''bin'', ''java.exe''],
        [''C:'', ''Program Files'', ''Java'', ''jdk-8'', ''bin'', ''java.exe''],
        [''C:'', ''Program Files'', ''Java'', ''jre-21'', ''bin'', ''java.exe''],
        [''C:'', ''Program Files'', ''Java'', ''jre-17'', ''bin'', ''java.exe''],
        [''C:'', ''Program Files'', ''Java'', ''jre-8'', ''bin'', ''java.exe'']]"

definition unix_java_paths :: "string list" where
  "unix_java_paths = [''/usr/bin/java'', ''/usr/local/bin/java'', ''/opt/java/bin/java'']"

definition find_java :: "server \<Rightarrow> world \<Rightarrow> string option" where
  "find_java s w =
     find (os_path_exists (files w))
       (if is_windows s then windows_java_paths else unix_java_paths)"

text \<open>
  The \<open>try\<close> block at the end of \<open>start_server\<close>: spawn the process, record the handle,
  persist the profile. A failure of the spawn is caught.
\<close>

definition launch :: "string list \<Rightarrow> server \<Rightarrow> world \<Rightarrow> bool \<times> server \<times> world" where
  "launch cmd s w =
     (case next_fault w of
        (Raised, w1) \<Rightarrow>
          (False, s\<lparr>is_running := False\<rparr>, emit (Popen cmd (server_dir s) Raised) w1)
      | (Done, w1) \<Rightarrow>
          (let w2 = emit (Popen cmd (server_dir s) Done) w1;
               h = \<lparr>pid = next_pid w2, returncode = None\<rparr>;
               (t, w3) = now (w2\<lparr>next_pid := Suc (next_pid w2)\<rparr>);
               s1 = s\<lparr>process := Some h, is_running := True, start_time := Some t\<rparr>;
               (saved, s2, w4) = save_config None s1 w3
           in (True, s2, w4)))"

text \<open>
  \<open>start_server\<close>: \<open>Inr b\<close> is the returned flag, \<open>Inl e\<close> an exception that leaves the method.
\<close>

definition start_server :: "server \<Rightarrow> world \<Rightarrow> (exn + bool) \<times> server \<times> world" where
  "start_server s w =
     (case (case java_probe w of
              Exit rc \<Rightarrow> Inr (rc = 0 \<or> find_java s w \<noteq> None)
            | FileNotFound \<Rightarrow> Inr (find_java s w \<noteq> None)
            | ProbeError \<Rightarrow> Inl OSError) of
        Inl e \<Rightarrow> (Inl e, s, w)
      | Inr False \<Rightarrow> (Inr False, s, w)
      | Inr True \<Rightarrow>
          (case server_jar s of
             JStr jar \<Rightarrow>
               if \<not> path_exists (files w) (joinpath (server_dir s) jar) then (Inr False, s, w)
               else
                 (case (if fst (check_eula s w) then (True, w) else accept_eula s w) of
                    (False, w1) \<Rightarrow> (Inr False, s, w1)
                  | (True, w1) \<Rightarrow>
                      (case (if \<not> path_exists (files w1) (joinpath (server_dir s) ''server.properties'')
                             then create_default_properties s w1 else Inr w1) of
                         Inl e \<Rightarrow> (Inl e, s, w1)
                       | Inr w2 \<Rightarrow>
                           (case get_java_command s of
                              Inl e \<Rightarrow> (Inl e, s, w2)
                            | Inr cmd \<Rightarrow>
                                (let (ok, s1, w3) = launch cmd s w2 in (Inr ok, s1, w3)))))
           | _ \<Rightarrow> (Inl TypeError, s, w)))"

section \<open>UniversalServer: talking to the process and stopping it\<close>

text \<open>
  \<open>Popen.poll()\<close>: the cached exit status if there is one, else the answer of the
  operating system, which is cached when the process has exited.
\<close>

definition poll :: "popen \<Rightarrow> world \<Rightarrow> int option \<times> popen \<times> world" where
  "poll h w =
     (case returncode h of
        Some c \<Rightarrow> (Some c, h, emit (Poll (Some c)) w)
      | None \<Rightarrow>
          (case statuses w of
             [] \<Rightarrow> (None, h, emit (Poll None) w)
           | r # rs \<Rightarrow> (r, h\<lparr>returncode := r\<rparr>, emit (Poll r) (w\<lparr>statuses := rs\<rparr>))))"

definition stdin_write :: "string \<Rightarrow> world \<Rightarrow> outcome \<times> world" where
  "stdin_write text w = (let (r, w1) = next_fault w in (r, emit (Write text r) w1))"

definition stdin_flush :: "world \<Rightarrow> outcome \<times> world" where
  "stdin_flush w = (let (r, w1) = next_fault w in (r, emit (Flush r) w1))"

definition terminate :: "world \<Rightarrow> outcome \<times> world" where
  "terminate w = (let (r, w1) = next_fault w in (r, emit (Terminate r) w1))"

definition kill :: "world \<Rightarrow> outcome \<times> world" where
  "kill w = (let (r, w1) = next_fault w in (r, emit (Kill r) w1))"

text \<open>\<open>subprocess.run(["taskkill", "/F", "/PID", str(pid)])\<close>.\<close>

definition taskkill :: "nat \<Rightarrow> world \<Rightarrow> outcome \<times> world" where
  "taskkill p w = (let (r, w1) = next_fault w in (r, emit (Taskkill p r) w1))"

definition sleep :: "nat \<Rightarrow> world \<Rightarrow> world" where
  "sleep n w = emit (Sleep n) w"

text \<open>
  The body of \<open>send_command\<close> for a handle that is there: poll, then write and flush;
  an exception of the write or the flush is caught and gives \<open>False\<close>.
\<close>

definition send_to :: "string \<Rightarrow> popen \<Rightarrow> world \<Rightarrow> bool \<times> popen \<times> world" where
  "send_to command h w =
     (let (r, h1, w1) = poll h w in
      if r = None then
        (let line = (if ends_with_newline command then command else command @ [newline]) in
         case stdin_write line w1 of
           (Raised, w2) \<Rightarrow> (False, h1, w2)
         | (Done, w2) \<Rightarrow>
             (case stdin_flush w2 of
                (Raised, w3) \<Rightarrow> (False, h1, w3)
              | (Done, w3) \<Rightarrow> (True, h1, w3)))
      else (False, h1, w1))"

definition send_command :: "string \<Rightarrow> server \<Rightarrow> world \<Rightarrow> bool \<times> server \<times> world" where
  "send_command command s w =
     (case process s of
        None \<Rightarrow> (False, s, w)
      | Some h \<Rightarrow>
          (let (ok, h1, w1) = send_to command h w in (ok, s\<lparr>process := Some h1\<rparr>, w1)))"

text \<open>\<open>for i in range(n): if poll() is not None: break; time.sleep(1)\<close>.\<close>

fun wait_exit :: "nat \<Rightarrow> popen \<Rightarrow> world \<Rightarrow> popen \<times> world" where
  "wait_exit 0 h w = (h, w)"
| "wait_exit (Suc n) h w =
     (let (r, h1, w1) = poll h w in
      if r \<noteq> None then (h1, w1) else wait_exit n h1 (sleep 1 w1))"

text \<open>The branch \<open>if force\<close> of the termination: signal, two seconds, signal again.\<close>

definition kill_forced :: "bool \<Rightarrow> popen \<Rightarrow> world \<Rightarrow> outcome \<times> popen \<times> world" where
  "kill_forced windows h w =
     (case (if windows then terminate w else kill w) of
        (Raised, w1) \<Rightarrow> (Raised, h, w1)
      | (Done, w1) \<Rightarrow>
          (let (r, h2, w2) = poll h (sleep 2 w1) in
           if r = None then
             (let (res, w3) = (if windows then taskkill (pid h2) w2 else kill w2)
              in (res, h2, w3))
           else (Done, h2, w2)))"

text \<open>The branch \<open>else\<close>: one signal.\<close>

definition kill_unresponsive :: "bool \<Rightarrow> popen \<Rightarrow> world \<Rightarrow> outcome \<times> popen \<times> world" where
  "kill_unresponsive windows h w =
     (let (res, w1) = (if windows then terminate w else kill w) in (res, h, w1))"

definition mark_stopped :: "server \<Rightarrow> server" where
  "mark_stopped s = s\<lparr>is_running := False, start_time := None\<rparr>"

text \<open>
  \<open>stop_server(force)\<close>. An exception of a termination call is caught by the handler,
  which returns \<open>False\<close> without touching the fields.
\<close>

definition stop_server :: "bool \<Rightarrow> server \<Rightarrow> world \<Rightarrow> bool \<times> server \<times> world" where
  "stop_server force s w =
     (case process s of
        None \<Rightarrow> (True, mark_stopped s, w)
      | Some h \<Rightarrow>
          (let (r, h0, w0) = poll h w in
           if r \<noteq> None then (True, mark_stopped (s\<lparr>process := Some h0\<rparr>), w0)
           else
             (let (h1, w1) =
                    (if \<not> force then
                       (let (sent, ha, wa) = send_to ''stop'' h0 w0 in wait_exit 30 ha wa)
                     else (h0, w0));
                  (r2, h2, w2) = poll h1 w1;
                  (res, h3, w3) =
                    (if r2 = None then
                       (if force then kill_forced (is_windows s) h2 w2
                        else kill_unresponsive (is_windows s) h2 w2)
                     else (Done, h2, w2))
              in case res of
                   Done \<Rightarrow> (True, mark_stopped (s\<lparr>process := Some h3\<rparr>), w3)
                 | Raised \<Rightarrow> (False, s\<lparr>process := Some h3\<rparr>, w3))))"




section \<open>Notions the properties are stated with\<close>

text \<open>
  A path object as \<open>Path(...)\<close> and \<open>/\<close> build it: no component is empty, is \<open>.\<close>, or
  holds a slash.
\<close>

definition normal_path :: "path \<Rightarrow> bool" where
  "normal_path p = list_all (\<lambda>w. w \<noteq> [] \<and> w \<noteq> ''.'' \<and> CHR ''/'' \<notin> set w) (parts p)"

text \<open>The six persisted fields of the profile.\<close>

definition profile :: "server \<Rightarrow> path \<times> jval \<times> jval \<times> jval \<times> jval \<times> jval" where
  "profile s =
     (server_dir s, server_jar s, java_opts s, core_type s, minecraft_version s, mirror_site s)"

text \<open>\<open>save(load(dir))\<close>: load the profile, then save it.\<close>

definition persist :: "server \<Rightarrow> world \<Rightarrow> bool \<times> server \<times> world" where
  "persist s w = (let (s1, w1) = load_config s w in save_config None s1 w1)"

text \<open>The record stored in the profile file, and the same without its time stamp.\<close>

definition stored :: "server \<Rightarrow> world \<Rightarrow> jval option" where
  "stored s w = read_json (files w) (config_file s)"

fun without_stamp :: "jval option \<Rightarrow> (string \<times> jval) list option" where
  "without_stamp (Some (JObj doc)) = Some (filter (\<lambda>kv. fst kv \<noteq> ''last_modified'') doc)"
| "without_stamp v = None"

text \<open>The record \<open>save_config()\<close> builds from the fields at time \<open>t\<close>.\<close>

definition profile_doc :: "server \<Rightarrow> datetime \<Rightarrow> (string \<times> jval) list" where
  "profile_doc s t =
     [(''server_dir'', JStr (path_str (server_dir s))),
      (''server_jar'', server_jar s),
      (''java_opts'', java_opts s),
      (''core_type'', core_type s),
      (''minecraft_version'', minecraft_version s),
      (''mirror_site'', mirror_site s),
      (''last_modified'', JStr (isoformat t))]"


definition eula_file :: "server \<Rightarrow> path" where
  "eula_file s = joinpath (server_dir s) ''eula.txt''"



text \<open>The events recorded between two worlds of one run.\<close>

definition new_events :: "world \<Rightarrow> world \<Rightarrow> event list" where
  "new_events w w' = drop (length (trace w)) (trace w')"

text \<open>A termination call that raised.\<close>

fun failed_kill :: "event \<Rightarrow> bool" where
  "failed_kill (Terminate Raised) = True"
| "failed_kill (Kill Raised) = True"
| "failed_kill (Taskkill p Raised) = True"
| "failed_kill e = False"

text \<open>From \<open>w\<close> to \<open>w'\<close> the trace only grew, and a termination call raised exactly if \<open>res\<close> says so.\<close>

definition kills :: "world \<Rightarrow> world \<Rightarrow> outcome \<Rightarrow> bool" where
  "kills w w' res =
     (prefix (trace w) (trace w') \<and> list_ex failed_kill (new_events w w') = (res = Raised))"

text \<open>The cooperative phase of \<open>stop_server\<close>: the stop command and the wait, unless forced.\<close>

definition stop_wait :: "bool \<Rightarrow> popen \<Rightarrow> world \<Rightarrow> popen \<times> world" where
  "stop_wait force h0 w0 =
     (if \<not> force then
        wait_exit 30 (fst (snd (send_to ''stop'' h0 w0))) (snd (snd (send_to ''stop'' h0 w0)))
      else (h0, w0))"

text \<open>The termination after the wait, given the result of the poll before it.\<close>

definition stop_kill :: "bool \<Rightarrow> bool \<Rightarrow> int option \<times> popen \<times> world \<Rightarrow> outcome \<times> popen \<times> world" where
  "stop_kill force windows p2 =
     (if fst p2 = None then
        (if force then kill_forced windows (fst (snd p2)) (snd (snd p2))
         else kill_unresponsive windows (fst (snd p2)) (snd (snd p2)))
      else (Done, snd p2))"

text \<open>
  The operating system reports the process running at the next \<open>n\<close> status queries.
\<close>

definition alive_for :: "nat \<Rightarrow> world \<Rightarrow> bool" where
  "alive_for n w = list_all (\<lambda>r. r = None) (take n (statuses w))"

section \<open>Example worlds\<close>

definition jar_file :: fdata where
  "jar_file = \<lparr>as_text = None, as_zip = Some [''META-INF/MANIFEST.MF''], as_json = None\<rparr>"

definition mixed_jar :: path where
  "mixed_jar = Path Slash [''srv'', ''mc'', ''Paper-NeoForge-1.21.jar'']"

definition mixed_fs :: filesys where
  "mixed_fs = [Path Slash [''srv'', ''mc''] \<mapsto> Dir, mixed_jar \<mapsto> File jar_file]"

definition neoforge_jar :: path where
  "neoforge_jar = Path Slash [''srv'', ''mc'', ''NeoForge-21.4.jar'']"

definition neoforge_fs :: filesys where
  "neoforge_fs = [Path Slash [''srv'', ''mc''] \<mapsto> Dir, neoforge_jar \<mapsto> File jar_file]"



definition home :: path where
  "home = Path Slash [''srv'', ''mc'']"

definition noon :: datetime where
  "noon = \<lparr>year = 2025, month = 3, day = 14, hour = 12, minute = 0, second = 0,
           microsecond = 0\<rparr>"

text \<open>The fields as the constructor sets them before it loads the profile.\<close>

definition blank_server :: server where
  "blank_server =
     \<lparr>server_dir = home, server_jar = JStr '''', java_opts = JStr ''-Xmx2048M -Xms2048M'',
      core_type = JStr ''unknown'', minecraft_version = JStr '''', mirror_site = JStr ''mslmc'',
      process = None, is_running = False, start_time = None,
      config_file = joinpath home ''server_launcher.json'', is_windows = False\<rparr>"

text \<open>A host with Java on the path and an empty server directory.\<close>

definition blank_world :: world where
  "blank_world =
     \<lparr>files = [home \<mapsto> Dir, joinpath home ''backups'' \<mapsto> Dir],
      can_write = (\<lambda>p. True), serial = (\<lambda>j. ''{}''), java_probe = Exit 0,
      statuses = [], faults = [], clock = [noon, noon\<lparr>second := 1\<rparr>, noon\<lparr>second := 2\<rparr>],
      next_pid = 4242, trace = []\<rparr>"

definition empty_dir_server :: server where
  "empty_dir_server = fst (load_config blank_server blank_world)"

definition empty_dir_world :: world where
  "empty_dir_world = snd (load_config blank_server blank_world)"

definition live_server :: server where
  "live_server =
     blank_server\<lparr>server_jar := JStr ''paper-1.21.4.jar'', core_type := JStr ''paper'',
       process := Some \<lparr>pid = 4242, returncode = None\<rparr>, is_running := True,
       start_time := Some noon\<rparr>"





text \<open>A process that exits two seconds after it was told to stop.\<close>

definition compliant_world :: world where
  "compliant_world = blank_world\<lparr>statuses := [None, None, None, None, Some 0]\<rparr>"

section \<open>Properties of the string operations\<close>

lemma contains_sublist: "contains sub s = sublist sub s"
  by (induction s) (simp_all add: sublist_Cons_right)

lemma contains_infix: "contains sub (pre @ sub @ post)"
  by (simp add: contains_sublist)

lemma lower_append: "lower (a @ b) = lower a @ lower b"
  by (simp add: lower_def)

text \<open>A keyword written in any mix of cases, with any text around it, is found after lowering.\<close>

lemma contains_lower_any_case:
  "lower w = k \<Longrightarrow> contains k (lower (pre @ w @ post))"
  by (auto simp: lower_append contains_infix)

lemma contains_neoforge_forge: "contains ''neoforge'' s \<Longrightarrow> contains ''forge'' s"
proof -
  assume "contains ''neoforge'' s"
  then obtain ps ss where "s = ps @ ''neoforge'' @ ss"
    by (auto simp: contains_sublist sublist_def)
  then have "s = (ps @ ''neo'') @ ''forge'' @ ss" by simp
  then show ?thesis unfolding contains_sublist sublist_def by blast
qed

lemma replace_Nil: "old \<noteq> [] \<Longrightarrow> replace old new [] = []"
  by (simp add: replace.simps)

lemma replace_hit:
  "old \<noteq> [] \<Longrightarrow> prefix old (c # cs) \<Longrightarrow>
   replace old new (c # cs) = new @ replace old new (drop (length old) (c # cs))"
  by (subst replace.simps) simp

lemma replace_miss:
  "old \<noteq> [] \<Longrightarrow> \<not> prefix old (c # cs) \<Longrightarrow>
   replace old new (c # cs) = c # replace old new cs"
  by (subst replace.simps) simp

section \<open>The download URL of the vanilla core\<close>

text \<open>
  C3, as stated, fails: with the default mirror \<open>mslmc\<close> the resolver answers the vanilla core
  with a concrete URL, because the mirror's own table is consulted before the vanilla case
  is reached.
\<close>

theorem vanilla_url_counterexample:
  "get_download_url ''vanilla'' ''1.21.4'' ''mslmc'' = Some ''https://dl.mslmc.cn''"
  by (simp add: get_download_url_def MIRROR_SITES_def replace_Nil replace_hit replace_miss)

text \<open>
  C3, amended: for every version string, resolving the vanilla core gives the mirror's
  template when the mirror registers one for vanilla (the fixed URL of \<open>mslmc\<close>, the
  version URL of \<open>bmclapi\<close>), and "unresolvable" for every other mirror, known or not.
\<close>

theorem vanilla_url:
  "get_download_url ''vanilla'' version mirror =
     (if mirror = ''mslmc'' then Some ''https://dl.mslmc.cn''
      else if mirror = ''bmclapi''
        then Some (''https://bmclapi2.bangbang93.com/version/'' @ version @ ''/server'')
      else None)"
  by (simp add: get_download_url_def MIRROR_SITES_def CORE_TYPES_def get_core_info_def
      replace_Nil replace_hit replace_miss)

section \<open>Identifying the artifact\<close>



text \<open>
  C4: for every existing file whose name, in any letter case and with any surrounding
  text, contains a vendor keyword, \<open>detect_core_type\<close> returns the first keyword of the
  priority order that occurs in the lower-cased name.
\<close>

theorem detect_core_type_keyword:
  assumes "path_exists fs p"
    and "first_keyword (lower (path_name p)) = Some k"
  shows "detect_core_type fs p = k"
  using assms contains_neoforge_forge [of "lower (path_name p)"]
  by (auto simp: detect_core_type_def first_keyword_def keyword_priority_def Let_def
      split: if_splits)

theorem detect_core_type_keyword_witness:
  "path_exists mixed_fs mixed_jar
   \<and> first_keyword (lower (path_name mixed_jar)) = Some ''paper''
   \<and> detect_core_type mixed_fs mixed_jar = ''paper''"
proof -
  have h1: "path_exists mixed_fs mixed_jar"
    by (simp add: path_exists_def mixed_fs_def)
  have h2: "first_keyword (lower (path_name mixed_jar)) = Some ''paper''"
    by code_simp
  show ?thesis using h1 h2 detect_core_type_keyword [OF h1 h2] by simp
qed

text \<open>
  C9, as stated, fails: a name that contains \<open>neoforge\<close> together with a keyword of higher
  priority is identified by that keyword, not as \<open>forge\<close>.
\<close>

theorem neoforge_counterexample:
  "path_exists mixed_fs mixed_jar
   \<and> contains ''neoforge'' (lower (path_name mixed_jar))
   \<and> detect_core_type mixed_fs mixed_jar \<noteq> ''forge''"
  by code_simp

text \<open>
  C9, amended: for every existing file whose lower-cased name contains \<open>neoforge\<close> and none
  of the keywords checked earlier (purpur, paper, spigot, craftbukkit, fabric), the result
  is the tag \<open>forge\<close>; and for every input whatsoever the result is never the tag \<open>neoforge\<close>.
\<close>

theorem detect_core_type_neoforge:
  "(path_exists fs p \<and> contains ''neoforge'' (lower (path_name p))
     \<and> \<not> contains ''purpur'' (lower (path_name p))
     \<and> \<not> contains ''paper'' (lower (path_name p))
     \<and> \<not> contains ''spigot'' (lower (path_name p))
     \<and> \<not> contains ''craftbukkit'' (lower (path_name p))
     \<and> \<not> contains ''fabric'' (lower (path_name p))
     \<longrightarrow> detect_core_type fs p = ''forge'')
   \<and> detect_core_type fs p \<noteq> ''neoforge''"
  by (simp add: detect_core_type_def Let_def split: option.splits)

theorem detect_core_type_neoforge_witness:
  "path_exists neoforge_fs neoforge_jar
   \<and> contains ''neoforge'' (lower (path_name neoforge_jar))
   \<and> \<not> contains ''purpur'' (lower (path_name neoforge_jar))
   \<and> \<not> contains ''paper'' (lower (path_name neoforge_jar))
   \<and> \<not> contains ''spigot'' (lower (path_name neoforge_jar))
   \<and> \<not> contains ''craftbukkit'' (lower (path_name neoforge_jar))
   \<and> \<not> contains ''fabric'' (lower (path_name neoforge_jar))
   \<and> detect_core_type neoforge_fs neoforge_jar = ''forge''
   \<and> detect_core_type neoforge_fs neoforge_jar \<noteq> ''neoforge''"
proof -
  have h: "path_exists neoforge_fs neoforge_jar
     \<and> contains ''neoforge'' (lower (path_name neoforge_jar))
     \<and> \<not> contains ''purpur'' (lower (path_name neoforge_jar))
     \<and> \<not> contains ''paper'' (lower (path_name neoforge_jar))
     \<and> \<not> contains ''spigot'' (lower (path_name neoforge_jar))
     \<and> \<not> contains ''craftbukkit'' (lower (path_name neoforge_jar))
     \<and> \<not> contains ''fabric'' (lower (path_name neoforge_jar))"
    by code_simp
  show ?thesis using h detect_core_type_neoforge [of neoforge_fs neoforge_jar] by blast
qed

section \<open>Paths as strings\<close>

lemma split_on_no_sep: "sep \<notin> set w \<Longrightarrow> split_on sep w = [w]"
  by (induction w) auto

lemma split_on_append:
  "sep \<notin> set w \<Longrightarrow> split_on sep (w @ sep # rest) = w # split_on sep rest"
  by (induction w) auto

lemma split_on_join:
  "ws \<noteq> [] \<Longrightarrow> list_all (\<lambda>w. sep \<notin> set w) ws \<Longrightarrow> split_on sep (join_with sep ws) = ws"
  by (induction sep ws rule: join_with.induct) (auto simp: split_on_no_sep split_on_append)

lemma split_on_not_Nil: "split_on sep s \<noteq> []"
  by (induction s) (auto split: list.splits)

lemma split_on_pieces: "w \<in> set (split_on sep s) \<Longrightarrow> sep \<notin> set w"
  by (induction s arbitrary: w) (auto split: if_splits list.splits)

lemma join_with_head:
  "ws \<noteq> [] \<Longrightarrow> list_all (\<lambda>w. w \<noteq> [] \<and> sep \<notin> set w) ws \<Longrightarrow>
   takeWhile (\<lambda>c. c = sep) (join_with sep ws) = []"
  by (induction sep ws rule: join_with.induct) (auto simp: takeWhile_eq_Nil_iff neq_Nil_conv)

lemma parts_of_join:
  assumes "list_all (\<lambda>w. w \<noteq> [] \<and> w \<noteq> ''.'' \<and> CHR ''/'' \<notin> set w) ws"
  shows "filter (\<lambda>w. w \<noteq> [] \<and> w \<noteq> ''.'') (split_on CHR ''/'' (join_with CHR ''/'' ws)) = ws"
proof (cases "ws = []")
  case True
  then show ?thesis by simp
next
  case False
  from assms have "list_all (\<lambda>w. CHR ''/'' \<notin> set w) ws"
    by (simp add: list_all_iff)
  with False have "split_on CHR ''/'' (join_with CHR ''/'' ws) = ws"
    by (rule split_on_join)
  moreover from assms have "filter (\<lambda>w. w \<noteq> [] \<and> w \<noteq> ''.'') ws = ws"
    by (simp add: list_all_iff filter_id_conv)
  ultimately show ?thesis by simp
qed

lemma head_of_join:
  assumes "list_all (\<lambda>w. w \<noteq> [] \<and> w \<noteq> ''.'' \<and> CHR ''/'' \<notin> set w) ws"
  shows "takeWhile (\<lambda>c. c = CHR ''/'') (join_with CHR ''/'' ws) = []"
proof (cases "ws = []")
  case True
  then show ?thesis by simp
next
  case False
  from assms have "list_all (\<lambda>w. w \<noteq> [] \<and> CHR ''/'' \<notin> set w) ws"
    by (simp add: list_all_iff)
  with False show ?thesis by (rule join_with_head)
qed

lemma path_round_trip: "normal_path p \<Longrightarrow> path_of_string (path_str p) = p"
proof -
  assume n: "normal_path p"
  obtain a ws where p: "p = Path a ws" by (cases p)
  with n have ws: "list_all (\<lambda>w. w \<noteq> [] \<and> w \<noteq> ''.'' \<and> CHR ''/'' \<notin> set w) ws"
    by (simp add: normal_path_def)
  show ?thesis
  proof (cases a)
    case NoRoot
    show ?thesis
    proof (cases "ws = []")
      case True
      with NoRoot p show ?thesis by (simp add: path_of_string_def path_str_def)
    next
      case False
      with NoRoot p parts_of_join [OF ws] head_of_join [OF ws] show ?thesis
        by (simp add: path_of_string_def path_str_def)
    qed
  next
    case Slash
    with p parts_of_join [OF ws] head_of_join [OF ws] show ?thesis
      by (simp add: path_of_string_def path_str_def)
  next
    case DoubleSlash
    with p parts_of_join [OF ws] head_of_join [OF ws] show ?thesis
      by (simp add: path_of_string_def path_str_def)
  qed
qed

lemma normal_path_of_string: "normal_path (path_of_string s)"
  by (auto simp: normal_path_def path_of_string_def list_all_iff dest: split_on_pieces)

lemma normal_joinpath: "normal_path p \<Longrightarrow> normal_path (joinpath p s)"
  using normal_path_of_string [of s]
  by (auto simp: joinpath_def normal_path_def Let_def)

section \<open>The profile record\<close>

lemma save_config_server [simp]: "fst (snd (save_config c s w)) = s"
  by (simp add: save_config_def Let_def split: option.splits prod.splits)

lemma save_config_None_ok:
  assumes "fst (save_config None s w)"
  shows "stored s (snd (snd (save_config None s w))) = Some (JObj (profile_doc s (fst (now w))))"
    and "path_exists (files (snd (snd (save_config None s w)))) (config_file s)"
  using assms
  by (auto simp: save_config_def stored_def read_json_def write_file_def json_file_def
      path_exists_def profile_doc_def Let_def split: option.splits prod.splits if_splits)

lemma load_stored_doc:
  assumes "normal_path (server_dir s)"
    and "path_exists (files w) (config_file s)"
    and "stored s w = Some (JObj (profile_doc s t))"
  shows "load_config s w = (s, w)"
  using assms path_round_trip [of "server_dir s"]
  by (simp add: load_config_def stored_def profile_doc_def dict_get_def Let_def)

lemma load_other_object:
  assumes "normal_path (server_dir s)"
    and "config_file s0 = config_file s"
    and "path_exists (files w) (config_file s)"
    and "stored s w = Some (JObj (profile_doc s t))"
  shows "profile (fst (load_config s0 w)) = profile s"
  using assms path_round_trip [of "server_dir s"]
  by (simp add: load_config_def stored_def profile_doc_def dict_get_def Let_def profile_def)

lemma save_config_result: "save_config c s w = (ok, s', w') \<Longrightarrow> s' = s"
  using save_config_server [of c s w] by simp

lemma load_config_normal:
  "normal_path (server_dir s) \<Longrightarrow> normal_path (server_dir (fst (load_config s w)))"
  by (auto simp: load_config_def Let_def reset_derived_def normal_path_of_string
      split: option.splits jval.splits prod.splits dest!: save_config_result)

lemma load_config_file [simp]: "config_file (fst (load_config s w)) = config_file s"
  by (auto simp: load_config_def Let_def reset_derived_def
      split: option.splits jval.splits prod.splits dest!: save_config_result)

lemma without_stamp_doc:
  "filter (\<lambda>kv. fst kv \<noteq> ''last_modified'') (profile_doc s t) =
   [(''server_dir'', JStr (path_str (server_dir s))),
      (''server_jar'', server_jar s),
      (''java_opts'', java_opts s),
      (''core_type'', core_type s),
      (''minecraft_version'', minecraft_version s),
       (''mirror_site'', mirror_site s)]"
  by (simp add: profile_doc_def)

lemma persist_twice:
  assumes n: "normal_path (server_dir s)"
    and ok1: "fst (persist s w)"
    and ok2: "fst (persist (fst (snd (persist s w))) (snd (snd (persist s w))))"
  shows "profile (fst (snd (persist (fst (snd (persist s w))) (snd (snd (persist s w))))))
           = profile (fst (snd (persist s w)))"
    and "without_stamp (stored s (snd (snd (persist (fst (snd (persist s w))) (snd (snd (persist s w)))))))
           = without_stamp (stored s (snd (snd (persist s w))))"
    and "without_stamp (stored s (snd (snd (persist s w)))) \<noteq> None"
proof -
  define s1 where "s1 = fst (load_config s w)"
  define w1 where "w1 = snd (load_config s w)"
  have p1: "persist s w = save_config None s1 w1"
    by (simp add: persist_def s1_def w1_def split: prod.splits)
  define wa where "wa = snd (snd (save_config None s1 w1))"
  have sa: "fst (snd (persist s w)) = s1" by (simp add: p1)
  have wa': "snd (snd (persist s w)) = wa" by (simp add: p1 wa_def)
  have cf: "config_file s1 = config_file s" by (simp add: s1_def)
  have n1: "normal_path (server_dir s1)" unfolding s1_def using n by (rule load_config_normal)
  from ok1 have ok1': "fst (save_config None s1 w1)" by (simp add: p1)
  have st1: "stored s1 wa = Some (JObj (profile_doc s1 (fst (now w1))))"
    unfolding wa_def using ok1' by (rule save_config_None_ok)
  have ex1: "path_exists (files wa) (config_file s1)"
    unfolding wa_def using ok1' by (rule save_config_None_ok)
  have l2: "load_config s1 wa = (s1, wa)"
    using n1 ex1 st1 by (rule load_stored_doc)
  have p2: "persist s1 wa = save_config None s1 wa"
    by (simp add: persist_def l2)
  from ok2 have ok2': "fst (save_config None s1 wa)" by (simp add: sa wa' p2)
  have st2: "stored s1 (snd (snd (save_config None s1 wa))) = Some (JObj (profile_doc s1 (fst (now wa))))"
    using ok2' by (rule save_config_None_ok)
  have same: "stored s = stored s1" by (rule ext) (simp add: stored_def cf)
  show "profile (fst (snd (persist (fst (snd (persist s w))) (snd (snd (persist s w))))))
           = profile (fst (snd (persist s w)))"
    by (simp add: sa wa' p2)
  show "without_stamp (stored s (snd (snd (persist (fst (snd (persist s w))) (snd (snd (persist s w)))))))
           = without_stamp (stored s (snd (snd (persist s w))))"
    by (simp add: sa wa' p2 same st1 st2 without_stamp_doc)
  show "without_stamp (stored s (snd (snd (persist s w)))) \<noteq> None"
    by (simp add: wa' same st1 without_stamp_doc)
qed

text \<open>
  C6: the persisted profile round-trips through save and load. A successful save followed
  by a load, into the same object or into any other object of the same profile file,
  recovers \<open>server_dir\<close>, \<open>server_jar\<close>, \<open>java_opts\<close>, \<open>core_type\<close>, \<open>minecraft_version\<close> and
  \<open>mirror_site\<close> unchanged; and applying \<open>save(load(dir))\<close> a second time leaves the six
  fields and the stored record as they were, up to the time stamp \<open>last_modified\<close>.
  The directory is a path object as the program builds them.
\<close>

theorem config_round_trip:
  assumes "normal_path (server_dir s)" and "config_file s0 = config_file s"
  shows "(fst (save_config None s w) \<longrightarrow>
            profile (fst (load_config s0 (snd (snd (save_config None s w))))) = profile s)
       \<and> (let r1 = persist s w; r2 = persist (fst (snd r1)) (snd (snd r1))
          in fst r1 \<and> fst r2 \<longrightarrow>
               profile (fst (snd r2)) = profile (fst (snd r1))
             \<and> without_stamp (stored s (snd (snd r2))) = without_stamp (stored s (snd (snd r1)))
             \<and> without_stamp (stored s (snd (snd r1))) \<noteq> None)"
proof -
  have a: "profile (fst (load_config s0 (snd (snd (save_config None s w))))) = profile s"
    if "fst (save_config None s w)"
    using assms save_config_None_ok(2) [OF that] save_config_None_ok(1) [OF that]
    by (rule load_other_object)
  show ?thesis
    using a persist_twice [OF assms(1)] by (simp add: Let_def)
qed

theorem config_round_trip_witness:
  "normal_path (server_dir live_server)
   \<and> config_file blank_server = config_file live_server
   \<and> fst (save_config None live_server blank_world)
   \<and> profile (fst (load_config blank_server (snd (snd (save_config None live_server blank_world)))))
       = profile live_server
   \<and> fst (persist live_server blank_world)
   \<and> fst (persist (fst (snd (persist live_server blank_world)))
                   (snd (snd (persist live_server blank_world))))
   \<and> without_stamp (stored live_server
         (snd (snd (persist (fst (snd (persist live_server blank_world)))
                            (snd (snd (persist live_server blank_world)))))))
       = without_stamp (stored live_server (snd (snd (persist live_server blank_world))))"
proof -
  have h1: "normal_path (server_dir live_server)" by code_simp
  have h2: "config_file blank_server = config_file live_server" by code_simp
  have h3: "fst (save_config None live_server blank_world)" by code_simp
  have h4: "fst (persist live_server blank_world)" by code_simp
  have h5: "fst (persist (fst (snd (persist live_server blank_world)))
                   (snd (snd (persist live_server blank_world))))" by code_simp
  show ?thesis
    using h1 h2 h3 h4 h5 config_round_trip [OF h1 h2, of blank_world]
    by (simp add: Let_def)
qed

text \<open>
  C10: a save without an explicit record writes exactly the keys \<open>server_dir\<close>,
  \<open>server_jar\<close>, \<open>java_opts\<close>, \<open>core_type\<close>, \<open>minecraft_version\<close>, \<open>mirror_site\<close>,
  \<open>last_modified\<close>, so the retention keys \<open>auto_backup\<close>, \<open>backup_interval\<close> and
  \<open>max_backups\<close> are absent from it; the record that the first load of a directory
  without a profile file persists does hold the three retention keys.
\<close>

theorem save_config_keys:
  "(fst (save_config None s w) \<longrightarrow>
      (\<exists>doc. stored s (snd (snd (save_config None s w))) = Some (JObj doc)
         \<and> map fst doc = [''server_dir'', ''server_jar'', ''java_opts'', ''core_type'',
                          ''minecraft_version'', ''mirror_site'', ''last_modified'']
         \<and> map_of doc ''auto_backup'' = None
         \<and> map_of doc ''backup_interval'' = None
         \<and> map_of doc ''max_backups'' = None))
   \<and> (\<not> path_exists (files w) (config_file s) \<and> can_write w (config_file s) \<longrightarrow>
      (\<exists>doc. stored s (snd (load_config s w)) = Some (JObj doc)
         \<and> map_of doc ''auto_backup'' = Some (JBool True)
         \<and> map_of doc ''backup_interval'' = Some (JInt 3600)
         \<and> map_of doc ''max_backups'' = Some (JInt 10)))"
proof -
  have a: "\<exists>doc. stored s (snd (snd (save_config None s w))) = Some (JObj doc)
         \<and> map fst doc = [''server_dir'', ''server_jar'', ''java_opts'', ''core_type'',
                          ''minecraft_version'', ''mirror_site'', ''last_modified'']
         \<and> map_of doc ''auto_backup'' = None
         \<and> map_of doc ''backup_interval'' = None
         \<and> map_of doc ''max_backups'' = None"
    if "fst (save_config None s w)"
    using save_config_None_ok(1) [OF that] by (simp add: profile_doc_def)
  have b: "\<exists>doc. stored s (snd (load_config s w)) = Some (JObj doc)
         \<and> map_of doc ''auto_backup'' = Some (JBool True)
         \<and> map_of doc ''backup_interval'' = Some (JInt 3600)
         \<and> map_of doc ''max_backups'' = Some (JInt 10)"
    if "\<not> path_exists (files w) (config_file s)" and "can_write w (config_file s)"
    using that
    by (simp add: load_config_def save_config_def write_file_def stored_def read_json_def
        json_file_def reset_derived_def path_exists_def Let_def)
  from a b show ?thesis by blast
qed

theorem save_config_keys_witness:
  "fst (save_config None blank_server blank_world)
   \<and> \<not> path_exists (files blank_world) (config_file blank_server)
   \<and> can_write blank_world (config_file blank_server)
   \<and> (\<exists>doc. stored blank_server (snd (snd (save_config None blank_server blank_world)))
              = Some (JObj doc)
         \<and> map fst doc = [''server_dir'', ''server_jar'', ''java_opts'', ''core_type'',
                          ''minecraft_version'', ''mirror_site'', ''last_modified'']
         \<and> map_of doc ''auto_backup'' = None
         \<and> map_of doc ''backup_interval'' = None
         \<and> map_of doc ''max_backups'' = None)
   \<and> (\<exists>doc. stored blank_server (snd (load_config blank_server blank_world)) = Some (JObj doc)
         \<and> map_of doc ''auto_backup'' = Some (JBool True)
         \<and> map_of doc ''backup_interval'' = Some (JInt 3600)
         \<and> map_of doc ''max_backups'' = Some (JInt 10))"
proof -
  have h1: "fst (save_config None blank_server blank_world)" by code_simp
  have h2: "\<not> path_exists (files blank_world) (config_file blank_server)" by code_simp
  have h3: "can_write blank_world (config_file blank_server)" by code_simp
  show ?thesis
    using h1 h2 h3 save_config_keys [of blank_server blank_world] by simp
qed

section \<open>Starting the server\<close>

lemma joinpath_empty: "joinpath p [] = p"
  by (simp add: joinpath_def path_of_string_def)







text \<open>
  C2 states that \<open>start_server\<close> on a profile without an artifact fails and spawns nothing.
  The code does otherwise: joined with the empty name the artifact path is the server
  directory itself, which exists, so the guard for the missing artifact is passed. On a
  host with Java, in an empty directory, the call returns \<open>True\<close> and a process is
  spawned with the directory in the place of the artifact.
\<close>

theorem start_server_empty_jar:
  "server_jar empty_dir_server = JStr ''''
   \<and> fst (start_server empty_dir_server empty_dir_world) = Inr True
   \<and> process (fst (snd (start_server empty_dir_server empty_dir_world)))
       = Some \<lparr>pid = 4242, returncode = None\<rparr>
   \<and> trace (snd (snd (start_server empty_dir_server empty_dir_world)))
       = [Popen [''java'', ''-Xmx2048M'', ''-Xms2048M'', ''-jar'', ''/srv/mc'', ''nogui'']
            home Done]"
  by code_simp


lemma next_fault_world: "snd (next_fault w) = w\<lparr>faults := tl (faults w)\<rparr>"
  by (cases "faults w") (simp_all add: next_fault_def)


lemma next_fault_split: "next_fault w = (fst (next_fault w), w\<lparr>faults := tl (faults w)\<rparr>)"
  using next_fault_world [of w] by (metis prod.collapse)










section \<open>Stopping the server\<close>

lemma poll_trace: "trace (snd (snd (poll h w))) = trace w @ [Poll (fst (poll h w))]"
  by (simp add: poll_def emit_def split: option.splits list.splits)

lemma poll_returncode: "returncode (fst (snd (poll h w))) = fst (poll h w)"
  by (simp add: poll_def split: option.splits list.splits)


lemma poll_running:
  "fst (poll h w) = None \<Longrightarrow> fst (snd (poll h w)) = h"
  by (auto simp: poll_def split: option.splits list.splits)

lemma poll_cached:
  "returncode h = Some c \<Longrightarrow> fst (poll h w) = Some c"
  by (simp add: poll_def)

lemma sleep_trace: "trace (sleep n w) = trace w @ [Sleep n]"
  by (simp add: sleep_def emit_def)


lemma wait_exit_shape:
  "\<exists>k\<le>n.
     (k = n \<and> fst (wait_exit n h w) = h
        \<and> trace (snd (wait_exit n h w)) = trace w @ concat (replicate k [Poll None, Sleep 1]))
   \<or> (\<exists>c. k < n \<and> returncode (fst (wait_exit n h w)) = Some c
        \<and> trace (snd (wait_exit n h w))
            = trace w @ concat (replicate k [Poll None, Sleep 1]) @ [Poll (Some c)])"
proof (induction n arbitrary: h w)
  case 0
  show ?case by simp
next
  case (Suc n)
  show ?case
  proof (cases "fst (poll h w)")
    case (Some c)
    have "wait_exit (Suc n) h w = snd (poll h w)"
      using Some by (simp add: split_beta)
    then have "returncode (fst (wait_exit (Suc n) h w)) = Some c"
      and "trace (snd (wait_exit (Suc n) h w)) = trace w @ [Poll (Some c)]"
      using Some by (simp_all add: poll_returncode poll_trace)
    then show ?thesis by (intro exI [of _ 0]) simp
  next
    case None
    define w1 where "w1 = sleep 1 (snd (snd (poll h w)))"
    have step: "wait_exit (Suc n) h w = wait_exit n h w1"
      using None poll_running [OF None] by (simp add: split_beta w1_def)
    have t1: "trace w1 = trace w @ [Poll None, Sleep 1]"
      using None by (simp add: w1_def sleep_trace poll_trace)
    from Suc.IH [of h w1] obtain k where k: "k \<le> n"
      and alt: "(k = n \<and> fst (wait_exit n h w1) = h
        \<and> trace (snd (wait_exit n h w1)) = trace w1 @ concat (replicate k [Poll None, Sleep 1]))
       \<or> (\<exists>c. k < n \<and> returncode (fst (wait_exit n h w1)) = Some c
        \<and> trace (snd (wait_exit n h w1))
            = trace w1 @ concat (replicate k [Poll None, Sleep 1]) @ [Poll (Some c)])"
      by blast
    from k alt show ?thesis
      by (intro exI [of _ "Suc k"]) (auto simp: step t1 simp del: wait_exit.simps)
  qed
qed







lemma next_fault_outcome:
  "next_fault w = (fst (next_fault w), w\<lparr>faults := tl (faults w)\<rparr>)"
  by (rule next_fault_split)

lemma stdin_write_trace:
  "trace (snd (stdin_write line w)) = trace w @ [Write line (fst (stdin_write line w))]"
  by (subst (1 2) stdin_write_def, subst (1 2) next_fault_split) (simp add: emit_def)

lemma stdin_flush_trace:
  "trace (snd (stdin_flush w)) = trace w @ [Flush (fst (stdin_flush w))]"
  by (subst (1 2) stdin_flush_def, subst (1 2) next_fault_split) (simp add: emit_def)

lemma terminate_trace:
  "trace (snd (terminate w)) = trace w @ [Terminate (fst (terminate w))]"
  by (subst (1 2) terminate_def, subst (1 2) next_fault_split) (simp add: emit_def)

lemma kill_trace:
  "trace (snd (kill w)) = trace w @ [Kill (fst (kill w))]"
  by (subst (1 2) kill_def, subst (1 2) next_fault_split) (simp add: emit_def)












lemma kills_Done: "fst p = Done \<Longrightarrow> kills w (snd p) (fst p) \<Longrightarrow> kills w (snd p) Done"
  by simp





lemma stop_server_running:
  assumes "process s = Some h" and "fst (poll h w) = None"
  shows "stop_server force s w =
     (let g = stop_wait force (fst (snd (poll h w))) (snd (snd (poll h w)));
          k = stop_kill force (is_windows s) (poll (fst g) (snd g))
      in case fst k of
           Done \<Rightarrow> (True, mark_stopped (s\<lparr>process := Some (fst (snd k))\<rparr>), snd (snd k))
         | Raised \<Rightarrow> (False, s\<lparr>process := Some (fst (snd k))\<rparr>, snd (snd k)))"
  using assms
  by (auto simp add: stop_server_def split_beta Let_def stop_wait_def stop_kill_def
      cong: outcome.case_cong)









section \<open>The graceful stop\<close>

lemma poll_alive:
  assumes "returncode h = None" and "alive_for (Suc n) w"
  shows "fst (poll h w) = None" and "fst (snd (poll h w)) = h"
    and "alive_for n (snd (snd (poll h w)))"
    and "trace (snd (snd (poll h w))) = trace w @ [Poll None]"
  using assms
  by (auto simp: poll_def alive_for_def emit_def split: list.splits)

lemma send_to_alive:
  assumes "returncode h = None" and "alive_for (Suc n) w"
  shows "fst (snd (send_to command h w)) = h"
    and "\<exists>o1 fl. trace (snd (snd (send_to command h w)))
            = trace w @ [Poll None,
                 Write (if ends_with_newline command then command else command @ [newline]) o1] @ fl
          \<and> ((o1 = Raised \<and> fl = []) \<or> (o1 = Done \<and> (\<exists>o2. fl = [Flush o2])))"
proof -
  define w1 where "w1 = snd (snd (poll h w))"
  define line where
    "line = (if ends_with_newline command then command else command @ [newline])"
  define wr where "wr = stdin_write line w1"
  define fl where "fl = stdin_flush (snd wr)"
  have p: "fst (poll h w) = None" "fst (snd (poll h w)) = h"
    "trace w1 = trace w @ [Poll None]"
    using poll_alive [OF assms] by (simp_all add: w1_def)
  have t2: "trace (snd wr) = trace w @ [Poll None, Write line (fst wr)]"
    by (simp add: wr_def stdin_write_trace p)
  have t3: "trace (snd fl) = trace w @ [Poll None, Write line (fst wr)] @ [Flush (fst fl)]"
    by (simp add: fl_def stdin_flush_trace t2)
  have eq: "send_to command h w =
      (case fst wr of
         Raised \<Rightarrow> (False, h, snd wr)
       | Done \<Rightarrow> (fst fl = Done, h, snd fl))"
    using p
    by (simp add: send_to_def split_beta Let_def w1_def wr_def fl_def line_def
        split: outcome.splits)
  show "fst (snd (send_to command h w)) = h"
    by (simp add: eq split: outcome.splits)
  show "\<exists>o1 fl. trace (snd (snd (send_to command h w)))
            = trace w @ [Poll None,
                 Write (if ends_with_newline command then command else command @ [newline]) o1] @ fl
          \<and> ((o1 = Raised \<and> fl = []) \<or> (o1 = Done \<and> (\<exists>o2. fl = [Flush o2])))"
  proof (cases "fst wr")
    case Raised
    then show ?thesis
      using t2 by (intro exI [of _ Raised] exI [of _ "[]"]) (simp add: eq line_def)
  next
    case Done
    then show ?thesis
      using t3 by (intro exI [of _ Done] exI [of _ "[Flush (fst fl)]"]) (simp add: eq line_def)
  qed
qed

lemma stop_line: "(if ends_with_newline ''stop'' then ''stop'' else ''stop'' @ [newline]) = ''stop'' @ [newline]"
  by (simp add: ends_with_newline_def newline_def)

lemma kill_unresponsive_shape:
  "trace (snd (snd (kill_unresponsive windows h w)))
     = trace w @ [if windows then Terminate (fst (kill_unresponsive windows h w))
                  else Kill (fst (kill_unresponsive windows h w))]"
  by (simp add: kill_unresponsive_def split_beta terminate_trace kill_trace)

text \<open>
  C5, amended: when \<open>stop_server(force=False)\<close> is called on a process that is running at
  the two liveness checks that precede the write, it writes the line \<open>stop\<close> to the process
  input (and flushes it if the write went through), then polls and sleeps one second in
  turn, at most 30 times. If a poll sees the process gone, in the loop or right after it,
  the call returns \<open>True\<close> with the supervisor marked stopped and no termination call made.
  Otherwise it makes one termination call and nothing more: \<open>terminate()\<close> on Windows,
  \<open>kill()\<close> elsewhere, without a grace period and without a second call; it returns \<open>True\<close>
  unless that call raises.
\<close>

theorem stop_server_graceful:
  assumes proc: "process s = Some h"
    and rc: "returncode h = None"
    and alive: "alive_for 2 w"
  shows "\<exists>k o1 fl post.
      k \<le> 30
    \<and> trace (snd (snd (stop_server False s w)))
        = trace w @ [Poll None, Poll None, Write (''stop'' @ [newline]) o1] @ fl
            @ concat (replicate k [Poll None, Sleep 1]) @ post
    \<and> ((o1 = Raised \<and> fl = []) \<or> (o1 = Done \<and> (\<exists>o2. fl = [Flush o2])))
    \<and> ((\<exists>c. k < 30 \<and> post = [Poll (Some c), Poll (Some c)]
             \<and> fst (stop_server False s w)
             \<and> \<not> is_running (fst (snd (stop_server False s w))))
       \<or> (\<exists>c. k = 30 \<and> post = [Poll (Some c)]
             \<and> fst (stop_server False s w)
             \<and> \<not> is_running (fst (snd (stop_server False s w))))
       \<or> (\<exists>o3. k = 30
             \<and> post = [Poll None, if is_windows s then Terminate o3 else Kill o3]
             \<and> fst (stop_server False s w) = (o3 = Done)))"
proof -
  define w0 where "w0 = snd (snd (poll h w))"
  define wa where "wa = snd (snd (send_to ''stop'' h w0))"
  define g where "g = wait_exit 30 h wa"
  define p2 where "p2 = poll (fst g) (snd g)"
  define k where "k = stop_kill False (is_windows s) p2"
  from alive have alive2: "alive_for (Suc (Suc 0)) w" by (simp add: numeral_2_eq_2)
  have p0: "fst (poll h w) = None" "fst (snd (poll h w)) = h" "alive_for (Suc 0) w0"
    "trace w0 = trace w @ [Poll None]"
    using poll_alive [OF rc alive2] by (simp_all add: w0_def)
  have sh: "fst (snd (send_to ''stop'' h w0)) = h"
    using send_to_alive(1) [OF rc p0(3)] .
  obtain o1 fl where ta: "trace wa = trace w0 @ [Poll None, Write (''stop'' @ [newline]) o1] @ fl"
    and fl: "(o1 = Raised \<and> fl = []) \<or> (o1 = Done \<and> (\<exists>o2. fl = [Flush o2]))"
    using send_to_alive(2) [OF rc p0(3), of "''stop''"] unfolding wa_def stop_line by blast
  have gw: "stop_wait False h w0 = g"
    by (simp add: stop_wait_def g_def wa_def sh)
  have eq: "stop_server False s w =
        (case fst k of
           Done \<Rightarrow> (True, mark_stopped (s\<lparr>process := Some (fst (snd k))\<rparr>), snd (snd k))
         | Raised \<Rightarrow> (False, s\<lparr>process := Some (fst (snd k))\<rparr>, snd (snd k)))"
    unfolding k_def p2_def gw [symmetric]
    using stop_server_running [OF proc p0(1), where force = False]
    by (simp only: Let_def p0(2) w0_def)
  have base: "trace wa = trace w @ [Poll None, Poll None, Write (''stop'' @ [newline]) o1] @ fl"
    by (simp add: ta p0)
  have t2: "trace (snd (snd p2)) = trace (snd g) @ [Poll (fst p2)]"
    unfolding p2_def by (rule poll_trace)
  from wait_exit_shape [of 30 h wa] obtain n where n: "n \<le> 30"
    and alt: "(n = 30 \<and> fst g = h
        \<and> trace (snd g) = trace wa @ concat (replicate n [Poll None, Sleep 1]))
     \<or> (\<exists>c. n < 30 \<and> returncode (fst g) = Some c
        \<and> trace (snd g) = trace wa @ concat (replicate n [Poll None, Sleep 1]) @ [Poll (Some c)])"
    unfolding g_def by blast
  from alt show ?thesis
  proof
    assume "\<exists>c. n < 30 \<and> returncode (fst g) = Some c
        \<and> trace (snd g) = trace wa @ concat (replicate n [Poll None, Sleep 1]) @ [Poll (Some c)]"
    then obtain c where c: "n < 30" "returncode (fst g) = Some c"
      "trace (snd g) = trace wa @ concat (replicate n [Poll None, Sleep 1]) @ [Poll (Some c)]"
      by blast
    have r2: "fst p2 = Some c" unfolding p2_def using c(2) by (rule poll_cached)
    have kk: "k = (Done, snd p2)" by (simp add: k_def stop_kill_def r2)
    have res: "fst (stop_server False s w)" "\<not> is_running (fst (snd (stop_server False s w)))"
      "trace (snd (snd (stop_server False s w)))
         = trace w @ [Poll None, Poll None, Write (''stop'' @ [newline]) o1] @ fl
            @ concat (replicate n [Poll None, Sleep 1]) @ [Poll (Some c), Poll (Some c)]"
      by (simp_all add: eq kk mark_stopped_def t2 r2 c(3) base)
    show ?thesis
      apply (rule exI [of _ n], rule exI [of _ o1], rule exI [of _ fl],
             rule exI [of _ "[Poll (Some c), Poll (Some c)]"])
      using n c(1) fl res by blast
  next
    assume "n = 30 \<and> fst g = h
        \<and> trace (snd g) = trace wa @ concat (replicate n [Poll None, Sleep 1])"
    then have full: "n = 30" "fst g = h"
      "trace (snd g) = trace wa @ concat (replicate n [Poll None, Sleep 1])"
      by simp_all
    show ?thesis
    proof (cases "fst p2")
      case (Some c)
      have kk: "k = (Done, snd p2)" by (simp add: k_def stop_kill_def Some)
      have res: "fst (stop_server False s w)" "\<not> is_running (fst (snd (stop_server False s w)))"
        "trace (snd (snd (stop_server False s w)))
           = trace w @ [Poll None, Poll None, Write (''stop'' @ [newline]) o1] @ fl
              @ concat (replicate n [Poll None, Sleep 1]) @ [Poll (Some c)]"
        by (simp_all add: eq kk mark_stopped_def t2 Some full(3) base)
      show ?thesis
        apply (rule exI [of _ n], rule exI [of _ o1], rule exI [of _ fl],
               rule exI [of _ "[Poll (Some c)]"])
        using n full(1) fl res by blast
    next
      case None
      define ku where "ku = kill_unresponsive (is_windows s) (fst (snd p2)) (snd (snd p2))"
      have kk: "k = ku" by (simp add: k_def stop_kill_def None ku_def)
      have t3: "trace (snd (snd ku)) = trace (snd (snd p2))
                  @ [if is_windows s then Terminate (fst ku) else Kill (fst ku)]"
        unfolding ku_def by (rule kill_unresponsive_shape)
      have tr: "trace (snd (snd (stop_server False s w)))
           = trace w @ [Poll None, Poll None, Write (''stop'' @ [newline]) o1] @ fl
              @ concat (replicate n [Poll None, Sleep 1])
              @ [Poll None, if is_windows s then Terminate (fst ku) else Kill (fst ku)]"
        by (cases "fst ku") (simp_all add: eq kk t3 t2 None full(3) base)
      have ok: "fst (stop_server False s w) = (fst ku = Done)"
        by (cases "fst ku") (simp_all add: eq kk)
      show ?thesis
        apply (rule exI [of _ n], rule exI [of _ o1], rule exI [of _ fl],
               rule exI [of _ "[Poll None, if is_windows s then Terminate (fst ku) else Kill (fst ku)]"])
        using n full(1) fl tr ok by blast
    qed
  qed
qed

theorem stop_server_graceful_witness:
  "process live_server = Some \<lparr>pid = 4242, returncode = None\<rparr>
   \<and> returncode \<lparr>pid = 4242, returncode = None\<rparr> = None
   \<and> alive_for 2 compliant_world
   \<and> (\<exists>k o1 fl post.
        k \<le> 30
      \<and> trace (snd (snd (stop_server False live_server compliant_world)))
          = trace compliant_world @ [Poll None, Poll None, Write (''stop'' @ [newline]) o1] @ fl
              @ concat (replicate k [Poll None, Sleep 1]) @ post
      \<and> ((o1 = Raised \<and> fl = []) \<or> (o1 = Done \<and> (\<exists>o2. fl = [Flush o2])))
      \<and> ((\<exists>c. k < 30 \<and> post = [Poll (Some c), Poll (Some c)]
               \<and> fst (stop_server False live_server compliant_world)
               \<and> \<not> is_running (fst (snd (stop_server False live_server compliant_world))))
         \<or> (\<exists>c. k = 30 \<and> post = [Poll (Some c)]
               \<and> fst (stop_server False live_server compliant_world)
               \<and> \<not> is_running (fst (snd (stop_server False live_server compliant_world))))
         \<or> (\<exists>o3. k = 30
               \<and> post = [Poll None, if is_windows live_server then Terminate o3 else Kill o3]
               \<and> fst (stop_server False live_server compliant_world) = (o3 = Done))))"
proof -
  have h1: "process live_server = Some \<lparr>pid = 4242, returncode = None\<rparr>" by code_simp
  have h2: "returncode \<lparr>pid = 4242, returncode = None\<rparr> = None" by simp
  have h3: "alive_for 2 compliant_world" by code_simp
  show ?thesis
    by (intro conjI h1 h2 h3 stop_server_graceful [OF h1 h2 h3])
qed

text \<open>
  C5, as stated, fails in its escalation: for a process that ignores the stop command on
  a host that is not Windows, the non-forced stop sleeps 30 times one second, then calls
  \<open>kill()\<close> once as its last action. There is no \<open>terminate()\<close>, no sleep of two seconds
  and no second call.
\<close>

theorem stop_server_graceful_counterexample:
  "process live_server = Some \<lparr>pid = 4242, returncode = None\<rparr>
   \<and> alive_for 2 blank_world
   \<and> fst (stop_server False live_server blank_world)
   \<and> Sleep 2 \<notin> set (trace (snd (snd (stop_server False live_server blank_world))))
   \<and> Terminate Done \<notin> set (trace (snd (snd (stop_server False live_server blank_world))))
   \<and> count_list (trace (snd (snd (stop_server False live_server blank_world)))) (Kill Done) = 1
   \<and> count_list (trace (snd (snd (stop_server False live_server blank_world)))) (Sleep 1) = 30
   \<and> last (trace (snd (snd (stop_server False live_server blank_world)))) = Kill Done"
  by code_simp

end
